theory Spec2Isabelle
  imports Main
begin

section \<open>Python strings and the built-ins the generator relies on\<close>

text \<open>
  A Python \<open>str\<close> is a sequence of Unicode code points, so a string is a list of natural
  numbers and \<open>len\<close> is \<open>length\<close>. The bullet glyph U+2022 does not fit a byte, which is
  why \<open>char list\<close> is not used. \<open>py ''abc''\<close> writes an ASCII literal.

  The classification of the ASCII range is written out below. Python's tables for the
  code points from 128 on and the string form of a dict are not part of the repository;
  they are the fields of a \<open>runtime\<close> record that every function takes, and nothing is
  assumed about them unless a theorem says so.
\<close>

type_synonym uchar = nat
type_synonym ustr = "uchar list"

abbreviation (input) py :: "string \<Rightarrow> ustr" where
  "py s \<equiv> map of_char s"

datatype py_error = IndexError | AttributeError | KeyError

text \<open>
  The values a content item's field can hold, as far as the generator tells them apart:
  a string, or something that is not a string (a number, None).
\<close>

datatype pyval = VStr ustr | VInt int | VNone

record runtime =
  ext_isalnum :: "uchar \<Rightarrow> bool"
  ext_isspace :: "uchar \<Rightarrow> bool"
  ext_lower :: "ustr \<Rightarrow> ustr"
  dict_str :: "(ustr \<times> pyval) list \<Rightarrow> ustr"

definition ascii_isalnum :: "uchar \<Rightarrow> bool" where
  "ascii_isalnum c = ((48 \<le> c \<and> c \<le> 57) \<or> (65 \<le> c \<and> c \<le> 90) \<or> (97 \<le> c \<and> c \<le> 122))"

definition ascii_isspace :: "uchar \<Rightarrow> bool" where
  \<comment> \<open>tab, LF, VT, FF, CR, the separators FS, GS, RS, US, and the blank\<close>
  "ascii_isspace c = ((9 \<le> c \<and> c \<le> 13) \<or> (28 \<le> c \<and> c \<le> 32))"

definition ascii_lower :: "uchar \<Rightarrow> uchar" where
  "ascii_lower c = (if 65 \<le> c \<and> c \<le> 90 then c + 32 else c)"

definition str_isalnum :: "runtime \<Rightarrow> uchar \<Rightarrow> bool" where
  "str_isalnum rt c = (if c < 128 then ascii_isalnum c else ext_isalnum rt c)"

definition str_isspace :: "runtime \<Rightarrow> uchar \<Rightarrow> bool" where
  "str_isspace rt c = (if c < 128 then ascii_isspace c else ext_isspace rt c)"

definition str_lower :: "runtime \<Rightarrow> ustr \<Rightarrow> ustr" where
  "str_lower rt s = (if list_all (\<lambda>c. c < 128) s then map ascii_lower s else ext_lower rt s)"

text \<open>
  A runtime for the concrete inputs below, which are ASCII throughout and never ask for
  the string form of a dict (\<open>dict_str\<close>, Python's \<open>str\<close> of a dict).
\<close>

definition ascii_rt :: runtime where
  "ascii_rt = \<lparr> ext_isalnum = (\<lambda>c. False), ext_isspace = (\<lambda>c. False), ext_lower = (\<lambda>s. s),
                dict_str = (\<lambda>d. py ''{}'') \<rparr>"

text \<open>\<open>s.split()\<close>: the maximal runs of non-whitespace characters, in order.\<close>

fun split_ws :: "(uchar \<Rightarrow> bool) \<Rightarrow> ustr \<Rightarrow> ustr list" where
  "split_ws sp [] = []"
| "split_ws sp [c] = (if sp c then [] else [[c]])"
| "split_ws sp (c # d # cs) =
     (if sp c then split_ws sp (d # cs)
      else if sp d then [c] # split_ws sp (d # cs)
      else (case split_ws sp (d # cs) of [] \<Rightarrow> [[c]] | w # ws \<Rightarrow> (c # w) # ws))"

definition str_split :: "runtime \<Rightarrow> ustr \<Rightarrow> ustr list" where
  "str_split rt s = split_ws (str_isspace rt) s"

text \<open>\<open>sep.join(ws)\<close>.\<close>

fun str_join :: "ustr \<Rightarrow> ustr list \<Rightarrow> ustr" where
  "str_join sep [] = []"
| "str_join sep [w] = w"
| "str_join sep (w # v # ws) = w @ sep @ str_join sep (v # ws)"

text \<open>\<open>s.rstrip(chars)\<close> and \<open>s.strip()\<close>.\<close>

definition str_rstrip :: "ustr \<Rightarrow> ustr \<Rightarrow> ustr" where
  "str_rstrip chars s = rev (dropWhile (\<lambda>c. c \<in> set chars) (rev s))"

definition str_strip :: "runtime \<Rightarrow> ustr \<Rightarrow> ustr" where
  "str_strip rt s = rev (dropWhile (str_isspace rt) (rev (dropWhile (str_isspace rt) s)))"

text \<open>
  An end index as Python's slices and \<open>rfind\<close> read it: a negative one counts from the
  end, and the result is clipped to the length.
\<close>

definition adjust_end :: "nat \<Rightarrow> int \<Rightarrow> nat" where
  "adjust_end n e = (if e < 0 then nat (int n + e) else min (nat e) n)"

definition slice_to :: "'a list \<Rightarrow> int \<Rightarrow> 'a list" where
  "slice_to xs e = take (adjust_end (length xs) e) xs"

text \<open>\<open>s.rfind(ch, 0, e)\<close>: the highest index below the end at which \<open>ch\<close> stands, or -1.\<close>

definition str_rfind :: "uchar \<Rightarrow> ustr \<Rightarrow> int \<Rightarrow> int" where
  "str_rfind ch s e =
     (case filter (\<lambda>i. s ! i = ch) (rev [0..<adjust_end (length s) e]) of
        [] \<Rightarrow> - 1
      | i # _ \<Rightarrow> int i)"

text \<open>\<open>s.startswith(p)\<close>.\<close>

definition str_startswith :: "ustr \<Rightarrow> ustr \<Rightarrow> bool" where
  "str_startswith s p = (take (length p) s = p)"

section \<open>Sentence completion and truncation\<close>

text \<open>The prefix table of \<open>ensure_complete_sentences\<close>, in the order the dict is written.\<close>

definition endings :: "(ustr \<times> ustr) list" where
  "endings =
    [(py ''manua'', py ''manual processes.''),
     (py ''vulnerab'', py ''vulnerability management.''),
     (py ''efficien'', py ''efficiency.''),
     (py ''secur'', py ''security measures.''),
     (py ''complian'', py ''compliance requirements.''),
     (py ''detect'', py ''detection capabilities.''),
     (py ''automa'', py ''automation capabilities.''),
     (py ''respon'', py ''response procedures.''),
     (py ''sophisti'', py ''sophisticated approach.''),
     (py ''integra'', py ''integration capabilities.''),
     (py ''platfor'', py ''platform features.''),
     (py ''soluti'', py ''solution benefits.''),
     (py ''analy'', py ''analysis capabilities.''),
     (py ''monitor'', py ''monitoring system.''),
     (py ''protect'', py ''protection measures.'')]"

text \<open>
  The test of the loop over the table: the last word starts with the prefix and is not
  the first word of the completion.
\<close>

definition ending_applies :: "runtime \<Rightarrow> ustr \<Rightarrow> ustr \<times> ustr \<Rightarrow> bool" where
  "ending_applies rt last_word pc =
     (str_startswith last_word (fst pc) \<and>
      last_word \<noteq> str_lower rt (hd (str_split rt (snd pc))))"

text \<open>
  \<open>ensure_complete_sentences\<close>. Reading \<open>text[-1]\<close> of an empty string and taking
  \<open>text.split()[-1]\<close> of a string without a word raise IndexError.
\<close>

definition ensure_complete_sentences :: "runtime \<Rightarrow> ustr \<Rightarrow> py_error + ustr" where
  "ensure_complete_sentences rt text0 =
     (if text0 = [] then Inr text0
      else
        let text1 = str_rstrip (py ''...'') (str_rstrip (py ''. '') text0)
        in if text1 = [] then Inl IndexError
           else
             let text2 = (if str_isalnum rt (last text1) then text1 @ py ''.'' else text1);
                 ws = str_split rt text2
             in if ws = [] then Inl IndexError
                else
                  let last_word = str_lower rt (last ws)
                  in case find (ending_applies rt last_word) endings of
                       None \<Rightarrow> Inr text2
                     | Some (partial, complete) \<Rightarrow>
                         Inr (str_join (py '' '') (butlast ws) @ py '' '' @ complete))"

text \<open>\<open>limit or default\<close> for an optional integer: None and 0 give the default.\<close>

definition or_default :: "int option \<Rightarrow> int \<Rightarrow> int" where
  "or_default m d = (case m of None \<Rightarrow> d | Some k \<Rightarrow> if k = 0 then d else k)"

text \<open>\<open>truncate_text_for_slide\<close>.\<close>

definition truncate_text_for_slide ::
  "runtime \<Rightarrow> ustr \<Rightarrow> int option \<Rightarrow> int option \<Rightarrow> py_error + ustr" where
  "truncate_text_for_slide rt text0 max_chars0 max_words0 =
     (if text0 = [] then Inr []
      else
        let max_chars = or_default max_chars0 100;
            max_words = or_default max_words0 20;
            text1 = str_strip rt text0;
            words = str_split rt text1
        in if int (length words) \<le> max_words \<and> int (length text1) \<le> max_chars
           then ensure_complete_sentences rt text1
           else
             let text2 = (if int (length words) > max_words
                          then str_join (py '' '') (slice_to words max_words)
                          else text1);
                 text3 =
                   (if int (length text2) > max_chars
                    then
                      let last_period = str_rfind (of_char CHR ''.'') text2 max_chars;
                          last_exclamation = str_rfind (of_char CHR ''!'') text2 max_chars;
                          last_question = str_rfind (of_char CHR ''?'') text2 max_chars;
                          last_sentence_end = max last_period (max last_exclamation last_question)
                      in if last_sentence_end > 0
                         then str_strip rt (slice_to text2 (last_sentence_end + 1))
                         else
                           let last_space = str_rfind (of_char CHR '' '') text2 max_chars
                           in if last_space > 0
                              then str_strip rt (slice_to text2 last_space)
                              else str_strip rt (slice_to text2 max_chars)
                    else text2)
             in ensure_complete_sentences rt text3)"




section \<open>Text normalisation and deduplication\<close>

text \<open>
  A content item is a string or a dict; a dict is kept as its list of fields in order.
\<close>

datatype item = IStr ustr | IDict "(ustr \<times> pyval) list"

text \<open>Python's truth value, \<open>d.get(k, default)\<close> and \<open>a or b\<close>.\<close>

definition truthy :: "pyval \<Rightarrow> bool" where
  "truthy v = (case v of VStr s \<Rightarrow> s \<noteq> [] | VInt i \<Rightarrow> i \<noteq> 0 | VNone \<Rightarrow> False)"

definition dict_get :: "(ustr \<times> pyval) list \<Rightarrow> ustr \<Rightarrow> pyval \<Rightarrow> pyval" where
  "dict_get d k dflt = (case map_of d k of None \<Rightarrow> dflt | Some v \<Rightarrow> v)"

definition py_or :: "pyval \<Rightarrow> pyval \<Rightarrow> pyval" where
  "py_or a b = (if truthy a then a else b)"

text \<open>\<open>s.replace(ch, '')\<close> for one character, and \<open>s.replace(old, new)\<close>.\<close>

definition str_remove :: "uchar \<Rightarrow> ustr \<Rightarrow> ustr" where
  "str_remove ch s = filter (\<lambda>c. c \<noteq> ch) s"

function str_replace :: "ustr \<Rightarrow> ustr \<Rightarrow> ustr \<Rightarrow> ustr" where
  "str_replace old new [] = []"
| "str_replace old new (c # cs) =
     (if old \<noteq> [] \<and> take (length old) (c # cs) = old
      then new @ str_replace old new (drop (length old) (c # cs))
      else c # str_replace old new cs)"
  by pat_completeness auto
termination
  by (relation "measure (\<lambda>(old, new, s). length s)") auto

text \<open>
  \<open>clean_and_deduplicate_text\<close>. A value that is true and not a string has no
  \<open>replace\<close>: AttributeError. The glyphs removed are U+2022, the asterisk, U+00B7 and the
  hyphen.
\<close>

definition clean_and_deduplicate_text :: "runtime \<Rightarrow> pyval \<Rightarrow> py_error + ustr" where
  "clean_and_deduplicate_text rt text =
     (if \<not> truthy text then Inr []
      else case text of
        VStr s \<Rightarrow>
          let t1 = str_remove 45 (str_remove 183 (str_remove 42 (str_remove 8226 s)));
              t2 = str_join (py '' '') (str_split rt t1);
              t3 = str_rstrip (py ''.,;:'') t2
          in Inr (str_strip rt t3)
      | _ \<Rightarrow> Inl AttributeError)"

text \<open>\<open>get_comparison_key\<close> and its stop words.\<close>

definition stop_words :: "ustr list" where
  "stop_words = [py ''the'', py ''a'', py ''an'', py ''and'', py ''or'', py ''but'', py ''in'',
                 py ''on'', py ''at'', py ''to'', py ''for'', py ''with'', py ''by'']"

definition get_comparison_key :: "runtime \<Rightarrow> ustr \<Rightarrow> ustr" where
  "get_comparison_key rt text =
     (if text = [] then []
      else
        let key = concat (map (\<lambda>c. str_lower rt [c])
                    (filter (\<lambda>c. str_isalnum rt c \<or> str_isspace rt c) text));
            words = str_split rt key;
            key_words = filter (\<lambda>w. w \<notin> set stop_words) words
        in str_join (py '' '') key_words)"

text \<open>
  The text of an item as \<open>deduplicate_content\<close> and as \<open>deduplicate_bullets\<close> read it
  (the second does not look at the field \<open>feature\<close>).
\<close>

definition item_text :: "runtime \<Rightarrow> item \<Rightarrow> pyval" where
  "item_text rt it =
     (case it of
        IDict d \<Rightarrow> py_or (dict_get d (py ''point'') (VStr []))
                     (py_or (dict_get d (py ''feature'') (VStr []))
                        (py_or (dict_get d (py ''text'') (VStr [])) (VStr (dict_str rt d))))
      | IStr s \<Rightarrow> VStr s)"

definition bullet_text :: "runtime \<Rightarrow> item \<Rightarrow> pyval" where
  "bullet_text rt it =
     (case it of
        IDict d \<Rightarrow> py_or (dict_get d (py ''point'') (VStr []))
                     (py_or (dict_get d (py ''text'') (VStr [])) (VStr (dict_str rt d)))
      | IStr s \<Rightarrow> VStr s)"

text \<open>\<open>v.replace("[Product Name]", product_name) if product_name else v\<close>.\<close>

definition substitute :: "ustr option \<Rightarrow> ustr \<Rightarrow> ustr" where
  "substitute product_name v =
     (case product_name of
        None \<Rightarrow> v
      | Some n \<Rightarrow> if n = [] then v else str_replace (py ''[Product Name]'') n v)"

definition substitute_val :: "ustr option \<Rightarrow> pyval \<Rightarrow> pyval" where
  "substitute_val product_name v = (case v of VStr s \<Rightarrow> VStr (substitute product_name s) | _ \<Rightarrow> v)"

text \<open>
  \<open>deduplicate_content\<close>: the loop with its two variables, the dict \<open>seen_points\<close> and
  the list \<open>cleaned_content\<close>.
\<close>

fun content_loop ::
  "runtime \<Rightarrow> ustr option \<Rightarrow> item list \<Rightarrow> (ustr \<rightharpoonup> ustr) \<Rightarrow> item list \<Rightarrow> py_error + item list" where
  "content_loop rt product_name [] seen_points cleaned_content = Inr cleaned_content"
| "content_loop rt product_name (it # rest) seen_points cleaned_content =
     (case clean_and_deduplicate_text rt (item_text rt it) of
        Inl e \<Rightarrow> Inl e
      | Inr clean_text \<Rightarrow>
          if clean_text = [] then content_loop rt product_name rest seen_points cleaned_content
          else
            let key = get_comparison_key rt clean_text
            in if key = [] then content_loop rt product_name rest seen_points cleaned_content
               else if (case seen_points key of
                          None \<Rightarrow> True
                        | Some old \<Rightarrow> length clean_text > length old)
               then content_loop rt product_name rest (seen_points(key \<mapsto> clean_text))
                      (cleaned_content @
                         [case it of
                            IDict d \<Rightarrow> IDict (map (\<lambda>(k, v). (k, substitute_val product_name v)) d)
                          | IStr s \<Rightarrow> IStr (substitute product_name clean_text)])
               else content_loop rt product_name rest seen_points cleaned_content)"

definition deduplicate_content :: "runtime \<Rightarrow> item list \<Rightarrow> ustr option \<Rightarrow> py_error + item list" where
  "deduplicate_content rt content_list product_name =
     content_loop rt product_name content_list Map.empty []"

text \<open>
  \<open>deduplicate_bullets\<close>. Its dict \<open>unique_bullets\<close> is returned as the list of its
  values, so the order of insertion matters: the dict is an association list, and
  assigning to a key that is present keeps the key's place.
\<close>

fun dict_set :: "'k \<Rightarrow> 'v \<Rightarrow> ('k \<times> 'v) list \<Rightarrow> ('k \<times> 'v) list" where
  "dict_set k v [] = [(k, v)]"
| "dict_set k v (kv # d) = (if fst kv = k then (k, v) # d else kv # dict_set k v d)"

fun bullets_loop ::
  "runtime \<Rightarrow> item list \<Rightarrow> (ustr \<times> ustr) list \<Rightarrow> py_error + (ustr \<times> ustr) list" where
  "bullets_loop rt [] unique_bullets = Inr unique_bullets"
| "bullets_loop rt (bullet # rest) unique_bullets =
     (case clean_and_deduplicate_text rt (bullet_text rt bullet) of
        Inl e \<Rightarrow> Inl e
      | Inr clean_text \<Rightarrow>
          let key = get_comparison_key rt clean_text
          in if key = [] then bullets_loop rt rest unique_bullets
             else if (case map_of unique_bullets key of
                        None \<Rightarrow> True
                      | Some old \<Rightarrow> length clean_text > length old)
             then bullets_loop rt rest (dict_set key clean_text unique_bullets)
             else bullets_loop rt rest unique_bullets)"

definition deduplicate_bullets :: "runtime \<Rightarrow> item list \<Rightarrow> py_error + ustr list" where
  "deduplicate_bullets rt bullets =
     (if bullets = [] then Inr []
      else case bullets_loop rt bullets [] of
             Inl e \<Rightarrow> Inl e
           | Inr unique_bullets \<Rightarrow> Inr (map snd unique_bullets))"

text \<open>The dedup key of a string: the comparison key of its cleaned text.\<close>

definition dedup_key :: "runtime \<Rightarrow> ustr \<Rightarrow> ustr" where
  "dedup_key rt s =
     (case clean_and_deduplicate_text rt (VStr s) of
        Inl e \<Rightarrow> []
      | Inr t \<Rightarrow> get_comparison_key rt t)"

section \<open>The image cache and dedup layer\<close>











section \<open>Slide builders and the content bundle\<close>

text \<open>
  A slide-content record maps field names to values. A list-valued field holds a
  reference to a list object, as in Python, and the list objects live in a store, so
  that two variables naming one list are told apart from two equal lists.
\<close>

type_synonym addr = nat

datatype cval = CStr ustr | CList addr

type_synonym slide_content = "ustr \<rightharpoonup> cval"

type_synonym store = "addr \<Rightarrow> item list"

text \<open>
  The variable \<open>bullets\<close> of \<open>create_advantage_slide\<close>: the new empty list it starts as,
  which only the variable names, or whatever a field of the content holds.
\<close>

datatype bullets_var = Local "item list" | Field cval

definition additional_advantages :: "item list" where
  "additional_advantages =
     [IStr (py ''Industry-leading innovation and technology''),
      IStr (py ''Proven track record of success''),
      IStr (py ''Comprehensive support and resources'')]"

definition select_bullets :: "slide_content \<Rightarrow> bullets_var" where
  "select_bullets content =
     (case content (py ''differentiators'') of
        Some v \<Rightarrow> Field v
      | None \<Rightarrow>
          (case content (py ''bullets'') of
             Some v \<Rightarrow> Field v
           | None \<Rightarrow>
               (case content (py ''advantages'') of
                  Some v \<Rightarrow> Field v
                | None \<Rightarrow> Local [])))"

text \<open>
  \<open>bullets.extend(additional_advantages)\<close>: the list the variable names is changed in
  place. The result is the new store and the elements of that list; a string has no
  \<open>extend\<close>.
\<close>

definition extend_bullets :: "bullets_var \<Rightarrow> store \<Rightarrow> store \<times> (py_error + item list)" where
  "extend_bullets bullets st =
     (case bullets of
        Local xs \<Rightarrow> (st, Inr (xs @ additional_advantages))
      | Field (CList a) \<Rightarrow>
          (st(a := st a @ additional_advantages), Inr (st a @ additional_advantages))
      | Field (CStr s) \<Rightarrow> (st, Inl AttributeError))"

fun bullet_paragraphs :: "runtime \<Rightarrow> ustr list \<Rightarrow> py_error + ustr list" where
  "bullet_paragraphs rt [] = Inr []"
| "bullet_paragraphs rt (b # rest) =
     (case truncate_text_for_slide rt b (Some 80) (Some 15) of
        Inl e \<Rightarrow> Inl e
      | Inr truncated_text \<Rightarrow>
          (case bullet_paragraphs rt rest of
             Inl e \<Rightarrow> Inl e
           | Inr ps \<Rightarrow> Inr (([8226, 32] @ truncated_text) # ps)))"

text \<open>
  \<open>create_advantage_slide\<close>, as far as the content and the texts put on the slide go: the
  title, then the bullets. The product name is read from the presentation context and is
  a parameter here. The shapes, fonts and the picture are the document library's: they
  do not touch the content and are taken to return. The result is the store after the
  call, and the title and the paragraphs of the slide, or the exception raised.
\<close>

definition create_advantage_slide ::
  "runtime \<Rightarrow> ustr \<Rightarrow> slide_content \<Rightarrow> store \<Rightarrow> store \<times> (py_error + ustr \<times> ustr list)" where
  "create_advantage_slide rt product_name content st =
     (case content (py ''title'') of
        None \<Rightarrow> (st, Inl KeyError)
      | Some (CList a) \<Rightarrow> (st, Inl AttributeError)
      | Some (CStr title) \<Rightarrow>
          let clean_title = str_replace (py ''[Product Name]'') product_name title;
              (st1, extended) = extend_bullets (select_bullets content) st
          in case extended of
               Inl e \<Rightarrow> (st1, Inl e)
             | Inr bullets \<Rightarrow>
                 (case deduplicate_bullets rt bullets of
                    Inl e \<Rightarrow> (st1, Inl e)
                  | Inr clean_bullets \<Rightarrow>
                      (case bullet_paragraphs rt (take 5 clean_bullets) of
                         Inl e \<Rightarrow> (st1, Inl e)
                       | Inr ps \<Rightarrow> (st1, Inr (clean_title, ps)))))"

definition demo_content :: slide_content where
  "demo_content = [py ''title'' \<mapsto> CStr (py ''Why us''), py ''differentiators'' \<mapsto> CList 0]"

definition demo_store :: store where
  "demo_store = (\<lambda>a. [])(0 := [IStr (py ''Fast setup'')])"

(*PROPERTIES*)

section \<open>Facts about the string built-ins\<close>

lemma str_rstrip_Nil: "str_rstrip chars [] = []"
  by (simp add: str_rstrip_def)

lemma str_rstrip_id: "s \<noteq> [] \<Longrightarrow> last s \<notin> set chars \<Longrightarrow> str_rstrip chars s = s"
  by (cases s rule: rev_cases) (simp_all add: str_rstrip_def)

lemma str_rstrip_last:
  "str_rstrip chars s \<noteq> [] \<Longrightarrow> last (str_rstrip chars s) \<notin> set chars"
proof -
  assume ne: "str_rstrip chars s \<noteq> []"
  let ?d = "dropWhile (\<lambda>c. c \<in> set chars) (rev s)"
  from ne have "?d \<noteq> []" by (simp add: str_rstrip_def)
  then have "hd ?d \<notin> set chars" using hd_dropWhile[of "\<lambda>c. c \<in> set chars" "rev s"] by simp
  moreover have "last (str_rstrip chars s) = hd ?d"
    using \<open>?d \<noteq> []\<close> by (simp add: str_rstrip_def last_rev)
  ultimately show ?thesis by simp
qed

lemma str_rstrip_all: "set s \<subseteq> set chars \<Longrightarrow> str_rstrip chars s = []"
  by (simp add: str_rstrip_def subset_iff)

lemma split_ws_empty_iff: "split_ws sp s = [] \<longleftrightarrow> (\<forall>c \<in> set s. sp c)"
  by (induction sp s rule: split_ws.induct) (auto split: list.splits)

lemma split_ws_nonempty: "\<exists>c \<in> set s. \<not> sp c \<Longrightarrow> split_ws sp s \<noteq> []"
  by (simp add: split_ws_empty_iff)

lemma ascii_class [simp]:
  "\<not> str_isalnum rt 46" "\<not> str_isspace rt 46" "\<not> str_isalnum rt 32" "str_isspace rt 32"
  "\<not> str_isspace rt 33" "\<not> str_isspace rt 63"
  by (simp_all add: str_isalnum_def str_isspace_def ascii_isalnum_def ascii_isspace_def)
















section \<open>Sentence completion\<close>

lemma endings_complete: "pc \<in> set endings \<Longrightarrow> snd pc \<noteq> [] \<and> last (snd pc) = 46"
  by (auto simp: endings_def)

text \<open>The function as a chain of its intermediate values.\<close>

lemma ensure_steps:
  assumes "text \<noteq> []"
    and "str_rstrip (py ''...'') (str_rstrip (py ''. '') text) = a" and "a \<noteq> []"
    and "(if str_isalnum rt (last a) then a @ py ''.'' else a) = t2"
    and "str_split rt t2 = ws" and "ws \<noteq> []"
  shows "ensure_complete_sentences rt text =
    (case find (ending_applies rt (str_lower rt (last ws))) endings of
       None \<Rightarrow> Inr t2
     | Some (partial, complete) \<Rightarrow> Inr (str_join (py '' '') (butlast ws) @ py '' '' @ complete))"
  unfolding ensure_complete_sentences_def Let_def assms(2) assms(4) assms(5)
  using assms(1,3,6) by simp

text \<open>
  Claim C7, as stated: for every non-empty input the repaired string ends in a full stop,
  an exclamation mark or a question mark. The function appends a full stop only after an
  alphanumeric character, so the input \<open>abc)\<close> comes back unchanged, ending in a bracket.
\<close>

theorem ensure_complete_sentences_final_counterexample:
  "ensure_complete_sentences ascii_rt (py ''abc)'') = Inr (py ''abc)'') \<and>
   last (py ''abc)'') \<notin> {of_char CHR ''.'', of_char CHR ''!'', of_char CHR ''?''}"
  by code_simp

text \<open>
  Claim C7, amended: when the input, with its trailing full stops and blanks removed, is
  not empty and ends in an alphanumeric character, an exclamation mark or a question
  mark, the repair returns a non-empty string whose last character is a full stop, an
  exclamation mark or a question mark.
\<close>

theorem ensure_complete_sentences_final_punctuation:
  assumes t1: "str_rstrip (py ''. '') text \<noteq> []"
    and l: "str_isalnum rt (last (str_rstrip (py ''. '') text)) \<or>
        last (str_rstrip (py ''. '') text) \<in> {of_char CHR ''!'', of_char CHR ''?''}"
  shows "\<exists>r. ensure_complete_sentences rt text = Inr r \<and> r \<noteq> [] \<and>
        last r \<in> {of_char CHR ''.'', of_char CHR ''!'', of_char CHR ''?''}"
proof -
  define a where "a = str_rstrip (py ''. '') text"
  have ne: "text \<noteq> []" using t1 by (auto simp: str_rstrip_def)
  have an: "a \<noteq> []" using t1 a_def by simp
  have la: "last a \<notin> set (py ''. '')" using str_rstrip_last[OF t1] a_def by simp
  then have "last a \<noteq> 46" by simp
  then have "str_rstrip (py ''...'') a = a" using an by (intro str_rstrip_id) auto
  then have r2: "str_rstrip (py ''...'') (str_rstrip (py ''. '') text) = a"
    by (simp only: a_def)
  define t2 where "t2 = (if str_isalnum rt (last a) then a @ py ''.'' else a)"
  have t2ne: "t2 \<noteq> []" using an by (simp add: t2_def)
  have t2last: "last t2 \<in> {46, 33, 63}" using l an a_def by (auto simp: t2_def)
  then have "\<not> str_isspace rt (last t2)" by auto
  then have "\<exists>c\<in>set t2. \<not> str_isspace rt c" using t2ne last_in_set by blast
  then have wsne: "str_split rt t2 \<noteq> []" by (simp add: str_split_def split_ws_nonempty)
  note st = ensure_steps[OF ne r2 an t2_def[symmetric] refl wsne]
  show ?thesis
  proof (cases "find (ending_applies rt (str_lower rt (last (str_split rt t2)))) endings")
    case None
    then have "ensure_complete_sentences rt text = Inr t2"
      using st by simp
    then show ?thesis using t2ne t2last by simp
  next
    case (Some pc)
    obtain p c where pc: "pc = (p, c)" by (cases pc)
    from Some have "pc \<in> set endings" by (auto simp: find_Some_iff in_set_conv_nth)
    then have c: "c \<noteq> []" "last c = 46" using endings_complete[of pc] pc by auto
    have "ensure_complete_sentences rt text =
        Inr (str_join (py '' '') (butlast (str_split rt t2)) @ py '' '' @ c)"
      using st Some pc by simp
    then show ?thesis using c by simp
  qed
qed

theorem ensure_complete_sentences_final_punctuation_witness:
  "str_rstrip (py ''. '') (py ''Hello world. '') \<noteq> [] \<and>
   str_isalnum ascii_rt (last (str_rstrip (py ''. '') (py ''Hello world. ''))) \<and>
   (\<exists>r. ensure_complete_sentences ascii_rt (py ''Hello world. '') = Inr r \<and> r \<noteq> [] \<and>
        last r \<in> {of_char CHR ''.'', of_char CHR ''!'', of_char CHR ''?''})"
proof -
  have h1: "str_rstrip (py ''. '') (py ''Hello world. '') \<noteq> []"
    by (simp add: str_rstrip_def)
  have h2: "str_isalnum ascii_rt (last (str_rstrip (py ''. '') (py ''Hello world. '')))"
    by (simp add: str_rstrip_def str_isalnum_def ascii_isalnum_def)
  show ?thesis
    using h1 h2 ensure_complete_sentences_final_punctuation[OF h1, of ascii_rt] by blast
qed

text \<open>
  Claim C10: the repair returns without raising for every non-empty input, also for one
  made of full stops and blanks only. The guard at the top tests the text before the
  trailing full stops and blanks are removed, not after: on every non-empty input made of
  full stops and blanks the stripped text is empty and reading its last character raises
  IndexError.
\<close>

theorem ensure_complete_sentences_raises_on_periods:
  assumes "text \<noteq> []" and "set text \<subseteq> {of_char CHR ''.'', of_char CHR '' ''}"
  shows "ensure_complete_sentences rt text = Inl IndexError"
proof -
  have "str_rstrip (py ''. '') text = []"
    using assms(2) by (intro str_rstrip_all) auto
  then have "str_rstrip [46, 32] text = []" by simp
  then show ?thesis using assms(1)
    by (simp add: ensure_complete_sentences_def str_rstrip_Nil)
qed

theorem ensure_complete_sentences_raises_on_periods_witness:
  "py ''. .'' \<noteq> [] \<and> set (py ''. .'') \<subseteq> {of_char CHR ''.'', of_char CHR '' ''} \<and>
   ensure_complete_sentences ascii_rt (py ''. .'') = Inl IndexError"
proof -
  have h1: "py ''. .'' \<noteq> []" by simp
  have h2: "set (py ''. .'') \<subseteq> {of_char CHR ''.'', of_char CHR '' ''}" by simp
  show ?thesis
    using h1 h2 ensure_complete_sentences_raises_on_periods[OF h1 h2, of ascii_rt] by blast
qed

text \<open>The Truncator passes the failure on: a lone full stop is within the default limits.\<close>

lemma truncate_text_for_slide_raises:
  "truncate_text_for_slide ascii_rt (py ''.'') None None = Inl IndexError"
  by code_simp











section \<open>Truncation\<close>









text \<open>
  What sentence completion can add to a text: a full stop, or a phrase of the table in
  place of the last word. The joined words of a text are no longer than the text.
\<close>

lemma str_join_Cons:
  "str_join sep (w # ws) = (if ws = [] then w else w @ sep @ str_join sep ws)"
  by (cases ws) simp_all











lemma str_join_empty_iff: "\<forall>w \<in> set ws. w \<noteq> [] \<Longrightarrow> str_join sep ws = [] \<longleftrightarrow> ws = []"
  by (cases ws) (simp_all add: str_join_Cons)







text \<open>The scenario of the specification.\<close>

lemma truncate_text_for_slide_scenario:
  "truncate_text_for_slide ascii_rt
     (py ''This is a great solution for your business needs today.'') (Some 20) (Some 5) =
   Inr (py ''This is a great.'')"
  by code_simp




section \<open>Deduplication\<close>

text \<open>
  \<open>deduplicate_bullets\<close> keeps one text per key: the keys of its outputs are pairwise
  different and none is empty.
\<close>

lemma map_fst_dict_set:
  "map fst (dict_set k v d) = (if k \<in> set (map fst d) then map fst d else map fst d @ [k])"
  by (induction d) auto

lemma set_dict_set: "set (dict_set k v d) \<subseteq> insert (k, v) (set d)"
  by (induction d) auto

lemma bullets_loop_keys:
  assumes "bullets_loop rt bs d = Inr d'"
    and "distinct (map fst d)"
    and "\<forall>kv \<in> set d. get_comparison_key rt (snd kv) = fst kv \<and> fst kv \<noteq> []"
  shows "distinct (map fst d') \<and>
         (\<forall>kv \<in> set d'. get_comparison_key rt (snd kv) = fst kv \<and> fst kv \<noteq> [])"
  using assms
proof (induction bs arbitrary: d)
  case Nil
  then show ?case by simp
next
  case (Cons b bs)
  from Cons.prems(1) obtain t where t: "clean_and_deduplicate_text rt (bullet_text rt b) = Inr t"
    by (cases "clean_and_deduplicate_text rt (bullet_text rt b)") auto
  define k where "k = get_comparison_key rt t"
  show ?case
  proof (cases "k \<noteq> [] \<and> (case map_of d k of None \<Rightarrow> True | Some old \<Rightarrow> length t > length old)")
    case True
    then have step: "bullets_loop rt bs (dict_set k t d) = Inr d'"
      using Cons.prems(1) t by (simp add: k_def Let_def)
    have d1: "distinct (map fst (dict_set k t d))"
      using Cons.prems(2) by (simp add: map_fst_dict_set)
    have d2: "\<forall>kv \<in> set (dict_set k t d). get_comparison_key rt (snd kv) = fst kv \<and> fst kv \<noteq> []"
      using Cons.prems(3) True set_dict_set[of k t d] by (auto simp: k_def)
    show ?thesis by (rule Cons.IH[OF step d1 d2])
  next
    case False
    then have step: "bullets_loop rt bs d = Inr d'"
      using Cons.prems(1) t by (auto simp: k_def Let_def split: if_splits)
    show ?thesis by (rule Cons.IH[OF step Cons.prems(2) Cons.prems(3)])
  qed
qed

lemma deduplicate_bullets_distinct_keys:
  assumes "deduplicate_bullets rt bullets = Inr out"
  shows "distinct (map (get_comparison_key rt) out) \<and> [] \<notin> set (map (get_comparison_key rt) out)"
proof (cases "bullets = []")
  case True
  then show ?thesis using assms by (simp add: deduplicate_bullets_def)
next
  case False
  then obtain d where d: "bullets_loop rt bullets [] = Inr d" and out: "out = map snd d"
    using assms by (auto simp: deduplicate_bullets_def split: sum.splits)
  have inv: "distinct (map fst d) \<and>
      (\<forall>kv \<in> set d. get_comparison_key rt (snd kv) = fst kv \<and> fst kv \<noteq> [])"
    using bullets_loop_keys[OF d] by simp
  then have "map (get_comparison_key rt) out = map fst d"
    by (simp add: out)
  then show ?thesis using inv by auto
qed

text \<open>
  Claim C1: no two elements of the Deduplicator's output have the same non-empty dedup
  key. \<open>deduplicate_content\<close> records the longer text of a key in \<open>seen_points\<close> as its
  comment says, and then appends it to the output, where the shorter text of the same
  key already stands: both stay. \<open>deduplicate_bullets\<close>, on the same input, returns one.
\<close>

theorem deduplicate_content_keeps_duplicate:
  "deduplicate_content ascii_rt [IStr (py ''deployment''), IStr (py ''the deployment'')] None =
     Inr [IStr (py ''deployment''), IStr (py ''the deployment'')] \<and>
   dedup_key ascii_rt (py ''deployment'') = dedup_key ascii_rt (py ''the deployment'') \<and>
   dedup_key ascii_rt (py ''deployment'') \<noteq> [] \<and>
   get_comparison_key ascii_rt (py ''deployment'') = get_comparison_key ascii_rt (py ''the deployment'')"
  by code_simp

lemma deduplicate_bullets_same_input:
  "deduplicate_bullets ascii_rt [IStr (py ''deployment''), IStr (py ''the deployment'')] =
     Inr [py ''the deployment'']"
  by code_simp

section \<open>Image cache\<close>







section \<open>Slide builders\<close>

text \<open>
  Claim C9: a slide builder leaves every field of the record it is given as it was.
  \<open>create_advantage_slide\<close> sets its variable \<open>bullets\<close> to the list of the field
  \<open>differentiators\<close> itself and extends it: after the call the field's list has three
  more elements. (\<open>create_problem_slide\<close> collects into a new list of its own.)
\<close>

theorem create_advantage_slide_extends_content:
  assumes "content (py ''title'') = Some (CStr title)"
    and "content (py ''differentiators'') = Some (CList a)"
  shows "fst (create_advantage_slide rt product_name content st) a =
           st a @ additional_advantages \<and>
         fst (create_advantage_slide rt product_name content st) a \<noteq> st a"
proof -
  have sel: "select_bullets content = Field (CList a)"
    using assms(2) by (simp add: select_bullets_def)
  have "fst (create_advantage_slide rt product_name content st) =
        st(a := st a @ additional_advantages)"
    unfolding create_advantage_slide_def assms(1) sel
    by (simp add: extend_bullets_def Let_def split: sum.splits)
  then show ?thesis by (simp add: additional_advantages_def)
qed

theorem create_advantage_slide_extends_content_witness:
  "demo_content (py ''title'') = Some (CStr (py ''Why us'')) \<and>
   demo_content (py ''differentiators'') = Some (CList 0) \<and>
   demo_store 0 = [IStr (py ''Fast setup'')] \<and>
   fst (create_advantage_slide ascii_rt [] demo_content demo_store) 0 =
     [IStr (py ''Fast setup''),
      IStr (py ''Industry-leading innovation and technology''),
      IStr (py ''Proven track record of success''),
      IStr (py ''Comprehensive support and resources'')]"
proof -
  have h1: "demo_content (py ''title'') = Some (CStr (py ''Why us''))"
    by (simp add: demo_content_def)
  have h2: "demo_content (py ''differentiators'') = Some (CList 0)"
    by (simp add: demo_content_def)
  have h3: "demo_store 0 = [IStr (py ''Fast setup'')]" by (simp add: demo_store_def)
  show ?thesis
    using create_advantage_slide_extends_content[OF h1 h2, of ascii_rt "[]" demo_store] h1 h2 h3
    by (simp add: additional_advantages_def)
qed

end
